theory Spec2Isabelle
  imports Main "HOL-Library.Log_Nat"
begin

section \<open>Values, exceptions and the error reporter\<close>

text \<open>
  The value of an inbound command is dynamically typed. Floats are represented by the
  rational number they denote (NaN, the infinities and the sign of zero are not modelled).
\<close>

datatype pyvalue =
    VNone
  | VBool bool
  | VInt int
  | VFloat rat
  | VStr string

text \<open>Python's \<^verbatim>\<open>bool(value)\<close>.\<close>

fun py_bool :: "pyvalue \<Rightarrow> bool" where
  "py_bool VNone = False"
| "py_bool (VBool b) = b"
| "py_bool (VInt n) = (n \<noteq> 0)"
| "py_bool (VFloat r) = (r \<noteq> 0)"
| "py_bool (VStr s) = (s \<noteq> [])"

text \<open>
  The exceptions that occur. Each carries the text \<^verbatim>\<open>str(ex)\<close> gives (a \<^verbatim>\<open>KeyError\<close>
  carries the missing key, which \<^verbatim>\<open>str\<close> shows in quotes, an \<^verbatim>\<open>UnboundLocalError\<close> the
  name of the local variable). \<open>ModbusException\<close>
  stands for pymodbus' exception class and its subclasses, \<open>OtherException\<close> for any other
  subclass of \<^verbatim>\<open>Exception\<close>, and \<open>BaseExceptionOnly\<close> for the exceptions that derive from
  \<^verbatim>\<open>BaseException\<close> but not from \<^verbatim>\<open>Exception\<close> (\<^verbatim>\<open>SystemExit\<close>, \<^verbatim>\<open>KeyboardInterrupt\<close>,
  \<^verbatim>\<open>GeneratorExit\<close>). The classes of \<^verbatim>\<open>app/exceptions.py\<close> (not among the sources) are taken
  to be subclasses of \<^verbatim>\<open>Exception\<close> none of which derives from another.
\<close>

datatype exn =
    ModbusException string
  | ModbusClientError string
  | InvalidMessageError string
  | UnknownCommandError string
  | KeyError string
  | IndexError string
  | EncodingError string
  | UnboundLocalError string
  | OtherException string
  | BaseExceptionOnly string

fun str :: "exn \<Rightarrow> string" where
  "str (ModbusException s) = s"
| "str (ModbusClientError s) = s"
| "str (InvalidMessageError s) = s"
| "str (UnknownCommandError s) = s"
| "str (KeyError s) = [CHR 0x27] @ s @ [CHR 0x27]"
| "str (IndexError s) = s"
| "str (EncodingError s) = s"
| "str (UnboundLocalError s) = s"
| "str (OtherException s) = s"
| "str (BaseExceptionOnly s) = s"

text \<open>\<^verbatim>\<open>isinstance(ex, Exception)\<close>: what an \<^verbatim>\<open>except Exception\<close> clause catches.\<close>

fun is_Exception :: "exn \<Rightarrow> bool" where
  "is_Exception (BaseExceptionOnly s) = False"
| "is_Exception e = True"

text \<open>
  Modelled from the spec: the categories of \<^verbatim>\<open>ErrorHandler.Category\<close>
  (\<^verbatim>\<open>app/error_handler.py\<close> is not among the sources).
\<close>

datatype category = INVALID_MESSAGE | UNKNOWN_COMMAND | TRANSPORT | UNHANDLED

text \<open>
  One call of \<^verbatim>\<open>error_handler.publish\<close>, with the arguments it was given: the Modbus client
  passes the exception, the MQTT reader a category and a text.
\<close>

datatype publication =
    PublishedException exn
  | PublishedCategory category string

text \<open>
  The state threaded through the program: what the error handler has published so far,
  and the world the commands act upon (for the Modbus client, the calls made on the
  TCP client so far).
\<close>

record 'w state =
  published :: "publication list"
  world :: 'w

type_synonym ('w, 'a) action = "'w state \<Rightarrow> (exn + 'a) \<times> 'w state"

definition returnE :: "'a \<Rightarrow> ('w, 'a) action" where
  "returnE x st = (Inr x, st)"

definition raiseE :: "exn \<Rightarrow> ('w, 'a) action" where
  "raiseE e st = (Inl e, st)"

text \<open>Sequencing: an exception of the first statement skips the rest.\<close>

definition bindE :: "('w, 'a) action \<Rightarrow> ('a \<Rightarrow> ('w, 'b) action) \<Rightarrow> ('w, 'b) action" where
  "bindE m f st = (case m st of (Inl e, st') \<Rightarrow> (Inl e, st') | (Inr x, st') \<Rightarrow> f x st')"

text \<open>\<^verbatim>\<open>try: m except ...: h\<close>; the handler re-raises what its clauses do not match.\<close>

definition tryE :: "('w, 'a) action \<Rightarrow> (exn \<Rightarrow> ('w, 'a) action) \<Rightarrow> ('w, 'a) action" where
  "tryE m h st = (case m st of (Inl e, st') \<Rightarrow> h e st' | (Inr x, st') \<Rightarrow> (Inr x, st'))"

text \<open>
  Modelled from the spec: \<^verbatim>\<open>ErrorHandler.publish\<close> (\<^verbatim>\<open>app/error_handler.py\<close> is not among
  the sources) forwards the event to its sink and never raises.
\<close>

definition publish :: "publication \<Rightarrow> ('w, unit) action" where
  "publish p st = (Inr (), st\<lparr>published := published st @ [p]\<rparr>)"

section \<open>Configuration\<close>

text \<open>
  Modelled from the spec: the device map of \<^verbatim>\<open>app/configuration.py\<close> (not among the
  sources). A target has a list of addresses, of which the client uses the first, its base
  address. The lookups are exact matches on the name; they give \<^verbatim>\<open>None\<close> when there is no
  such target, and a target that is found counts as true in a condition.
\<close>

datatype data_type = INT16 | UINT16 | INT32 | UINT32 | FLOAT32 | UnrecognizedType string

datatype byte_order = BigEndian | LittleEndian

datatype word_order = NaturalWords | SwappedWords

record memory_order =
  mo_bytes :: byte_order
  mo_words :: word_order

record coil =
  coil_name :: string
  coil_address :: "int list"

record holding_register =
  hr_name :: string
  hr_address :: "int list"
  hr_data_type :: data_type
  hr_memory_order :: memory_order

record configuration =
  coils :: "coil list"
  holding_registers :: "holding_register list"

definition get_coil :: "configuration \<Rightarrow> string \<Rightarrow> coil option" where
  "get_coil cfg n = find (\<lambda>c. coil_name c = n) (coils cfg)"

definition get_holding_register :: "configuration \<Rightarrow> string \<Rightarrow> holding_register option" where
  "get_holding_register cfg n = find (\<lambda>r. hr_name r = n) (holding_registers cfg)"

text \<open>\<^verbatim>\<open>xs[0]\<close> raises \<^verbatim>\<open>IndexError\<close> on the empty list.\<close>

definition first_address :: "int list \<Rightarrow> ('w, int) action" where
  "first_address xs = (case xs of [] \<Rightarrow> raiseE (IndexError ''list index out of range'')
                        | a # _ \<Rightarrow> returnE a)"

section \<open>Payload codec\<close>

text \<open>
  Modelled from the spec: the payload builder of \<^verbatim>\<open>app/payload_builder.py\<close> (not among the
  sources), following the steps of the spec's section 4.3. Bytes and words are integers.
\<close>

text \<open>The \<open>k\<close> bytes of the two's-complement representation of \<open>n\<close>, most significant first.\<close>

fun bytes_be :: "nat \<Rightarrow> int \<Rightarrow> int list" where
  "bytes_be 0 n = []"
| "bytes_be (Suc k) n = (n div 256 ^ k) mod 256 # bytes_be k n"

definition pow2 :: "int \<Rightarrow> rat" where
  "pow2 k = (if 0 \<le> k then 2 ^ nat k else 1 / 2 ^ nat (- k))"

text \<open>For a positive rational \<open>a\<close>, the exponent \<open>e\<close> with \<open>2^e \<le> a < 2^(e+1)\<close>.\<close>

definition floor_log2 :: "rat \<Rightarrow> int" where
  "floor_log2 a =
     (let (p, q) = quotient_of a;
          d = bitlen p - bitlen q
      in if pow2 d \<le> a then d else d - 1)"

text \<open>Rounding a non-negative rational to the nearest integer, ties to even.\<close>

definition round_half_even :: "rat \<Rightarrow> int" where
  "round_half_even x =
     (let f = \<lfloor>x\<rfloor>; r = x - of_int f
      in if r < 1 / 2 then f
         else if 1 / 2 < r then f + 1
         else if even f then f else f + 1)"

text \<open>
  The IEEE-754 single-precision bit pattern of a rational, rounded to nearest (ties to
  even); \<open>None\<close> when the value is too large for the format.
\<close>

definition float32_bits :: "rat \<Rightarrow> int option" where
  "float32_bits x =
     (if x = 0 then Some 0
      else
        let a = \<bar>x\<bar>;
            e = max (floor_log2 a) (- 126);
            m = round_half_even (a * pow2 (23 - e));
            magnitude = (e + 126) * 2 ^ 23 + m
        in if 255 * 2 ^ 23 \<le> magnitude then None
           else Some ((if x < 0 then 2 ^ 31 else 0) + magnitude))"

text \<open>
  Step 1: the fixed-width byte representation, or an encoding error: an integer type takes
  an integer within its range, the float type a number within the range of the format.
\<close>

fun integer_bytes :: "nat \<Rightarrow> int \<Rightarrow> int \<Rightarrow> pyvalue \<Rightarrow> exn + int list" where
  "integer_bytes k lo hi (VInt n) =
     (if lo \<le> n \<and> n < hi then Inr (bytes_be k n) else Inl (EncodingError ''overflow''))"
| "integer_bytes k lo hi v = Inl (EncodingError ''not an integer'')"

definition float_bytes :: "rat \<Rightarrow> exn + int list" where
  "float_bytes x =
     (case float32_bits x of
        None \<Rightarrow> Inl (EncodingError ''overflow'')
      | Some b \<Rightarrow> Inr (bytes_be 4 b))"

fun number_bytes :: "pyvalue \<Rightarrow> exn + int list" where
  "number_bytes (VFloat x) = float_bytes x"
| "number_bytes (VInt n) = float_bytes (of_int n)"
| "number_bytes v = Inl (EncodingError ''not a number'')"

fun encode_bytes :: "data_type \<Rightarrow> pyvalue \<Rightarrow> exn + int list" where
  "encode_bytes INT16 v = integer_bytes 2 (- (2 ^ 15)) (2 ^ 15) v"
| "encode_bytes UINT16 v = integer_bytes 2 0 (2 ^ 16) v"
| "encode_bytes INT32 v = integer_bytes 4 (- (2 ^ 31)) (2 ^ 31) v"
| "encode_bytes UINT32 v = integer_bytes 4 0 (2 ^ 32) v"
| "encode_bytes FLOAT32 v = number_bytes v"
| "encode_bytes (UnrecognizedType t) v = Inl (EncodingError ''unrecognized data type'')"

text \<open>Step 2: consecutive byte pairs as 16-bit words, in address order.\<close>

fun split_words :: "int list \<Rightarrow> (int \<times> int) list" where
  "split_words (hi # lo # bs) = (hi, lo) # split_words bs"
| "split_words bs = []"

text \<open>Step 3: the byte order within a word.\<close>

fun word_of :: "byte_order \<Rightarrow> int \<times> int \<Rightarrow> int" where
  "word_of BigEndian (hi, lo) = hi * 256 + lo"
| "word_of LittleEndian (hi, lo) = lo * 256 + hi"

text \<open>Step 4: the order of the words.\<close>

fun order_words :: "word_order \<Rightarrow> int list \<Rightarrow> int list" where
  "order_words NaturalWords ws = ws"
| "order_words SwappedWords ws = rev ws"

definition encode :: "data_type \<Rightarrow> memory_order \<Rightarrow> pyvalue \<Rightarrow> exn + int list" where
  "encode t mo v =
     (case encode_bytes t v of
        Inl e \<Rightarrow> Inl e
      | Inr bs \<Rightarrow> Inr (order_words (mo_words mo) (map (word_of (mo_bytes mo)) (split_words bs))))"

section \<open>Modbus client\<close>

text \<open>
  The calls made on the pymodbus TCP client. The client itself is outside the program: it
  is given by what each call does after the calls made so far, namely return, return an
  error response (as pymodbus does when the device rejects a request), raise a
  \<^verbatim>\<open>ModbusException\<close>, or raise some other exception. The program never looks at what a
  call returns.
\<close>

datatype bus_call =
    Connect
  | Close
  | WriteCoil int bool int
  | WriteCoils int "bool list"
  | WriteRegisters int "int list" int

datatype tcp_result = Done | ErrorReturned | ModbusFailure string | OtherFailure string

record modbus_client =
  configuration :: configuration
  client :: "bus_call list \<Rightarrow> bus_call \<Rightarrow> tcp_result"

type_synonym 'a modbus_action = "(bus_call list, 'a) action"

definition call :: "modbus_client \<Rightarrow> bus_call \<Rightarrow> unit modbus_action" where
  "call self c st =
     (case client self (world st) c of
        Done \<Rightarrow> Inr ()
      | ErrorReturned \<Rightarrow> Inr ()
      | ModbusFailure s \<Rightarrow> Inl (ModbusException s)
      | OtherFailure s \<Rightarrow> Inl (OtherException s),
      st\<lparr>world := world st @ [c]\<rparr>)"

text \<open>
  The handler shared by the three write operations:
  \<^verbatim>\<open>except ModbusException as ex: self.error_handler.publish(ex); raise ModbusClientError(ex)\<close>.
\<close>

fun except_ModbusException :: "exn \<Rightarrow> 'a modbus_action" where
  "except_ModbusException (ModbusException s) =
     bindE (publish (PublishedException (ModbusException s)))
       (\<lambda>_. raiseE (ModbusClientError s))"
| "except_ModbusException e = raiseE e"

definition write_coils :: "modbus_client \<Rightarrow> string \<Rightarrow> bool list \<Rightarrow> int modbus_action" where
  "write_coils self n v =
     (case get_coil (configuration self) n of
        Some coil_configuration \<Rightarrow>
          tryE
            (bindE (call self Connect) (\<lambda>_.
             bindE (first_address (coil_address coil_configuration)) (\<lambda>a.
             bindE (call self (WriteCoils a v)) (\<lambda>_.
             bindE (call self Close) (\<lambda>_.
             returnE (int (length v)))))))
            except_ModbusException
      | None \<Rightarrow> returnE 0)"

definition write_coil :: "modbus_client \<Rightarrow> string \<Rightarrow> bool \<Rightarrow> int modbus_action" where
  "write_coil self n v =
     (case get_coil (configuration self) n of
        Some coil_configuration \<Rightarrow>
          tryE
            (bindE (call self Connect) (\<lambda>_.
             bindE (first_address (coil_address coil_configuration)) (\<lambda>a.
             bindE (call self (WriteCoil a v 1)) (\<lambda>_.
             bindE (call self Close) (\<lambda>_.
             returnE 1)))))
            except_ModbusException
      | None \<Rightarrow> returnE 0)"

text \<open>
  \<^verbatim>\<open>_build_register_payload\<close>: the payload builder is given the data type, the value and
  the memory order of the register, and builds the word sequence.
\<close>

definition build_register_payload :: "holding_register \<Rightarrow> pyvalue \<Rightarrow> int list modbus_action" where
  "build_register_payload holding_register v =
     (case encode (hr_data_type holding_register) (hr_memory_order holding_register) v of
        Inl e \<Rightarrow> raiseE e
      | Inr ws \<Rightarrow> returnE ws)"

text \<open>
  \<^verbatim>\<open>except Exception as ex: self.error_handler.publish(ex); raise InvalidMessageError(ex)\<close>
\<close>

definition except_Exception_invalid :: "exn \<Rightarrow> 'a modbus_action" where
  "except_Exception_invalid e =
     (if is_Exception e
      then bindE (publish (PublishedException e)) (\<lambda>_. raiseE (InvalidMessageError (str e)))
      else raiseE e)"

definition write_register :: "modbus_client \<Rightarrow> string \<Rightarrow> pyvalue \<Rightarrow> int modbus_action" where
  "write_register self n v =
     (case get_holding_register (configuration self) n of
        Some holding_register_configuration \<Rightarrow>
          bindE (tryE (build_register_payload holding_register_configuration v)
                   except_Exception_invalid) (\<lambda>payload.
          tryE
            (bindE (call self Connect) (\<lambda>_.
             bindE (first_address (hr_address holding_register_configuration)) (\<lambda>a.
             bindE (call self (WriteRegisters a payload 1)) (\<lambda>_.
             bindE (call self Close) (\<lambda>_.
             returnE 1)))))
            except_ModbusException)
      | None \<Rightarrow> returnE 0)"

text \<open>
  \<^verbatim>\<open>write_command\<close> up to its last statement: the value of the local variable \<^verbatim>\<open>sent\<close>.
\<close>

definition write_command_sent :: "modbus_client \<Rightarrow> string \<Rightarrow> pyvalue \<Rightarrow> int modbus_action" where
  "write_command_sent self n v =
     bindE (case get_coil (configuration self) n of
              Some coil_configuration \<Rightarrow>
                bindE (write_coil self n (py_bool v)) (\<lambda>c. returnE (0 + c))
            | None \<Rightarrow> returnE 0) (\<lambda>sent.
     case get_holding_register (configuration self) n of
       Some holding_register_configuration \<Rightarrow>
         bindE (write_register self n v) (\<lambda>c. returnE (sent + c))
     | None \<Rightarrow> returnE sent)"

text \<open>
  \<^verbatim>\<open>write_command\<close> has no \<^verbatim>\<open>return\<close> statement: when it does not raise, its value is
  \<^verbatim>\<open>None\<close>, written \<open>None\<close> here; a returned integer would be \<open>Some\<close> of it.
\<close>

definition write_command :: "modbus_client \<Rightarrow> string \<Rightarrow> pyvalue \<Rightarrow> int option modbus_action" where
  "write_command self n v =
     bindE (write_command_sent self n v) (\<lambda>sent.
     if sent = 0
     then bindE (publish (PublishedException (UnknownCommandError n)))
            (\<lambda>_. raiseE (UnknownCommandError n))
     else returnE None)"

section \<open>MQTT reader\<close>

text \<open>
  A message as the MQTT client library hands it to the handler: the bytes of its topic and
  of its payload. Reading \<^verbatim>\<open>message.topic\<close> decodes the topic bytes, as
  \<^verbatim>\<open>message.payload.decode()\<close> decodes the payload, and raises when they are not valid
  UTF-8.
\<close>

record mqtt_message =
  topic :: string
  payload :: string

type_synonym msg_dict = "string \<rightharpoonup> pyvalue"

text \<open>
  Modelled from the spec: the fields of a command message (\<^verbatim>\<open>app/message.py\<close> is not among
  the sources): the action and the raw value it is constructed with, the target its
  validation resolves and the value its transformation produces.
\<close>

datatype target = CoilTarget coil | RegisterTarget holding_register

record command_message =
  cm_action :: pyvalue
  cm_value :: pyvalue
  cm_target :: "target option"
  cm_typed :: "pyvalue option"

definition CommandMessage :: "pyvalue \<Rightarrow> pyvalue \<Rightarrow> command_message" where
  "CommandMessage a v = \<lparr>cm_action = a, cm_value = v, cm_target = None, cm_typed = None\<rparr>"

text \<open>
  The reader with its collaborators, none of which is among the sources: \<open>decode\<close> is
  \<^verbatim>\<open>bytes.decode\<close> (for the payload and for the topic), \<open>read\<close> is \<^verbatim>\<open>CommandMessageList.read\<close>, \<open>validate\<close> and \<open>transform\<close> are
  the methods of \<^verbatim>\<open>CommandMessage\<close>, each returning the message as it has changed it or the
  exception it raises. A callback acts on the world and may publish and raise.
\<close>

record 'w mqtt_reader =
  decode :: "string \<Rightarrow> exn + string"
  read :: "string \<Rightarrow> exn + msg_dict list"
  validate :: "command_message \<Rightarrow> exn + command_message"
  transform :: "command_message \<Rightarrow> exn + command_message"
  on_message_callbacks :: "(command_message \<Rightarrow> ('w, unit) action) list"

text \<open>\<^verbatim>\<open>msg_dict[key]\<close> raises \<^verbatim>\<open>KeyError\<close> when the key is missing.\<close>

definition getitem :: "msg_dict \<Rightarrow> string \<Rightarrow> exn + pyvalue" where
  "getitem d k = (case d k of None \<Rightarrow> Inl (KeyError k) | Some v \<Rightarrow> Inr v)"

text \<open>The body of the loop over the batch: construct, validate, transform.\<close>

definition read_item :: "'w mqtt_reader \<Rightarrow> msg_dict \<Rightarrow> exn + command_message" where
  "read_item self msg_dict =
     (case getitem msg_dict ''action'' of
        Inl e \<Rightarrow> Inl e
      | Inr a \<Rightarrow>
          (case getitem msg_dict ''value'' of
             Inl e \<Rightarrow> Inl e
           | Inr v \<Rightarrow>
               (case validate self (CommandMessage a v) of
                  Inl e \<Rightarrow> Inl e
                | Inr validated \<Rightarrow> transform self validated)))"

text \<open>The loop: the first exception ends it; otherwise the message is appended.\<close>

fun read_items ::
  "'w mqtt_reader \<Rightarrow> msg_dict list \<Rightarrow> command_message list \<Rightarrow> exn + command_message list"
where
  "read_items self [] msg_obj_list = Inr msg_obj_list"
| "read_items self (msg_dict # msg_list) msg_obj_list =
     (case read_item self msg_dict of
        Inl e \<Rightarrow> Inl e
      | Inr msg_obj \<Rightarrow> read_items self msg_list (msg_obj_list @ [msg_obj]))"

text \<open>The body of the inner \<^verbatim>\<open>try\<close>: decode the payload, read the batch, run the loop.\<close>

definition read_messages :: "'w mqtt_reader \<Rightarrow> mqtt_message \<Rightarrow> exn + command_message list" where
  "read_messages self message =
     (case decode self (payload message) of
        Inl e \<Rightarrow> Inl e
      | Inr msg_str \<Rightarrow>
          (case read self msg_str of
             Inl e \<Rightarrow> Inl e
           | Inr msg_list \<Rightarrow> read_items self msg_list []))"

definition liftE :: "exn + 'a \<Rightarrow> ('w, 'a) action" where
  "liftE r = (case r of Inl e \<Rightarrow> raiseE e | Inr x \<Rightarrow> returnE x)"

text \<open>
  The clauses of the inner \<^verbatim>\<open>try\<close>: each publishes and returns from the handler, which is
  the value \<open>None\<close> here; \<open>Some\<close> of the messages means that the handler goes on.
\<close>

fun except_invalid_or_unknown :: "exn \<Rightarrow> ('w, command_message list option) action" where
  "except_invalid_or_unknown (InvalidMessageError s) =
     bindE (publish (PublishedCategory INVALID_MESSAGE s)) (\<lambda>_. returnE None)"
| "except_invalid_or_unknown (UnknownCommandError s) =
     bindE (publish (PublishedCategory UNKNOWN_COMMAND s)) (\<lambda>_. returnE None)"
| "except_invalid_or_unknown e = raiseE e"

text \<open>\<^verbatim>\<open>for callback in self._on_message_callbacks: callback(msg_obj)\<close>\<close>

fun run_callbacks ::
  "(command_message \<Rightarrow> ('w, unit) action) list \<Rightarrow> command_message \<Rightarrow> ('w, unit) action"
where
  "run_callbacks [] msg_obj = returnE ()"
| "run_callbacks (callback # callbacks) msg_obj =
     bindE (callback msg_obj) (\<lambda>_. run_callbacks callbacks msg_obj)"

text \<open>\<^verbatim>\<open>for msg_obj in msg_obj_list: ...\<close>\<close>

fun dispatch ::
  "(command_message \<Rightarrow> ('w, unit) action) list \<Rightarrow> command_message list \<Rightarrow> ('w, unit) action"
where
  "dispatch callbacks [] = returnE ()"
| "dispatch callbacks (msg_obj # msg_obj_list) =
     bindE (run_callbacks callbacks msg_obj) (\<lambda>_. dispatch callbacks msg_obj_list)"

text \<open>
  \<^verbatim>\<open>except Exception as ex\<close>: log, publish as unhandled, and return normally. An exception
  that is not an \<^verbatim>\<open>Exception\<close> is not caught. The log line reads the local variable
  \<^verbatim>\<open>msg_topic\<close>, which is given here as \<open>Some\<close> of its value, or as \<open>None\<close> when it has not
  been assigned: reading it then raises \<^verbatim>\<open>UnboundLocalError\<close> before anything is published.
\<close>

definition except_Exception_unhandled :: "string option \<Rightarrow> exn \<Rightarrow> ('w, unit) action" where
  "except_Exception_unhandled msg_topic e =
     (if is_Exception e
      then (case msg_topic of
              None \<Rightarrow> raiseE (UnboundLocalError ''msg_topic'')
            | Some t \<Rightarrow> publish (PublishedCategory UNHANDLED (str e)))
      else raiseE e)"

text \<open>
  The handler \<^verbatim>\<open>inner\<close> that \<^verbatim>\<open>_on_message\<close> returns. Its result \<open>Inl e\<close> is an exception
  that leaves the handler. The first statement of the outer \<^verbatim>\<open>try\<close> is
  \<^verbatim>\<open>msg_topic = message.topic\<close>: when it raises, the \<^verbatim>\<open>except\<close> clause runs with
  \<^verbatim>\<open>msg_topic\<close> unassigned, otherwise the rest of the \<^verbatim>\<open>try\<close> runs with it assigned.
\<close>

definition on_message :: "'w mqtt_reader \<Rightarrow> mqtt_message \<Rightarrow> ('w, unit) action" where
  "on_message self message =
     (case decode self (topic message) of
        Inl e \<Rightarrow> except_Exception_unhandled None e
      | Inr msg_topic \<Rightarrow>
          tryE
            (bindE
               (tryE (bindE (liftE (read_messages self message)) (\<lambda>msg_obj_list.
                      returnE (Some msg_obj_list)))
                  except_invalid_or_unknown)
               (\<lambda>r. case r of
                      None \<Rightarrow> returnE ()
                    | Some msg_obj_list \<Rightarrow> dispatch (on_message_callbacks self) msg_obj_list))
            (except_Exception_unhandled (Some msg_topic)))"

section \<open>Command messages\<close>

text \<open>
  Modelled from the spec: \<^verbatim>\<open>CommandMessage.validate\<close> (\<^verbatim>\<open>app/message.py\<close> is not among the
  sources) fails with \<^verbatim>\<open>UnknownCommandError\<close> if the action matches neither a coil nor a
  register name, and resolves the target otherwise.
\<close>

fun CommandMessage_validate :: "configuration \<Rightarrow> command_message \<Rightarrow> exn + command_message" where
  "CommandMessage_validate cfg m =
     (case cm_action m of
        VStr n \<Rightarrow>
          (case get_coil cfg n of
             Some c \<Rightarrow> Inr (m\<lparr>cm_target := Some (CoilTarget c)\<rparr>)
           | None \<Rightarrow>
               (case get_holding_register cfg n of
                  Some r \<Rightarrow> Inr (m\<lparr>cm_target := Some (RegisterTarget r)\<rparr>)
                | None \<Rightarrow> Inl (UnknownCommandError n)))
      | _ \<Rightarrow> Inl (UnknownCommandError ''action is not a name''))"

text \<open>
  Modelled from the spec: \<^verbatim>\<open>CommandMessage.transform\<close> (\<^verbatim>\<open>app/message.py\<close> is not among the
  sources) coerces the value for a coil to a boolean and never fails there; for a register
  it fails with \<^verbatim>\<open>InvalidMessageError\<close> if the value is not a number or does not fit the
  declared data type, which is the check of the payload codec.
\<close>

fun CommandMessage_transform :: "command_message \<Rightarrow> exn + command_message" where
  "CommandMessage_transform m =
     (case cm_target m of
        Some (CoilTarget c) \<Rightarrow> Inr (m\<lparr>cm_typed := Some (VBool (py_bool (cm_value m)))\<rparr>)
      | Some (RegisterTarget r) \<Rightarrow>
          (case encode_bytes (hr_data_type r) (cm_value m) of
             Inl e \<Rightarrow> Inl (InvalidMessageError (str e))
           | Inr bs \<Rightarrow> Inr (m\<lparr>cm_typed := Some (cm_value m)\<rparr>))
      | None \<Rightarrow> Inl (InvalidMessageError ''not validated''))"

section \<open>An example installation\<close>

definition example_configuration :: configuration where
  "example_configuration =
     \<lparr>coils = [\<lparr>coil_name = ''pump_1'', coil_address = [10]\<rparr>,
               \<lparr>coil_name = ''valve'', coil_address = [11]\<rparr>],
      holding_registers =
        [\<lparr>hr_name = ''setpoint'', hr_address = [100], hr_data_type = INT16,
          hr_memory_order = \<lparr>mo_bytes = BigEndian, mo_words = NaturalWords\<rparr>\<rparr>,
         \<lparr>hr_name = ''valve'', hr_address = [200], hr_data_type = UINT16,
          hr_memory_order = \<lparr>mo_bytes = BigEndian, mo_words = NaturalWords\<rparr>\<rparr>]\<rparr>"

text \<open>A TCP client on which every call returns.\<close>

definition reliable_client :: modbus_client where
  "reliable_client = \<lparr>configuration = example_configuration, client = (\<lambda>h k. Done)\<rparr>"

text \<open>A TCP client whose server refuses every write.\<close>

definition refusing_client :: modbus_client where
  "refusing_client =
     \<lparr>configuration = example_configuration,
      client = (\<lambda>h k. if k = Connect \<or> k = Close then Done else ModbusFailure ''refused'')\<rparr>"

text \<open>A TCP client whose writes raise an exception that is not a \<^verbatim>\<open>ModbusException\<close>.\<close>

definition timing_out_client :: modbus_client where
  "timing_out_client =
     \<lparr>configuration = example_configuration,
      client = (\<lambda>h k. if k = Connect \<or> k = Close then Done else OtherFailure ''timed out'')\<rparr>"

text \<open>A TCP client whose server answers every write with an error response.\<close>

definition rejecting_client :: modbus_client where
  "rejecting_client =
     \<lparr>configuration = example_configuration,
      client = (\<lambda>h k. if k = Connect \<or> k = Close then Done else ErrorReturned)\<rparr>"

definition initial_state :: "bus_call list state" where
  "initial_state = \<lparr>published = [], world = []\<rparr>"

text \<open>
  Callbacks as a caller may register them with \<^verbatim>\<open>add_message_callback\<close>: one that records
  the command it is given, so that the world is the list of the commands dispatched; one
  that fails; and one that ends the process, as \<^verbatim>\<open>sys.exit\<close> does by raising \<^verbatim>\<open>SystemExit\<close>.
\<close>

definition recording_callback :: "command_message \<Rightarrow> (command_message list, unit) action" where
  "recording_callback m st = (Inr (), st\<lparr>world := world st @ [m]\<rparr>)"

definition failing_callback :: "command_message \<Rightarrow> (command_message list, unit) action" where
  "failing_callback m = raiseE (OtherException ''callback failed'')"

definition exiting_callback :: "command_message \<Rightarrow> (command_message list, unit) action" where
  "exiting_callback m = raiseE (BaseExceptionOnly ''SystemExit'')"

definition nothing_dispatched :: "command_message list state" where
  "nothing_dispatched = \<lparr>published = [], world = []\<rparr>"

text \<open>
  A reader for which the payload \<open>batch\<close> reads as a valid command followed by an unknown
  one, and \<open>pump\<close> as a single valid command; the bytes \<open>garbled\<close> do not decode.
\<close>

definition example_read :: "string \<Rightarrow> exn + msg_dict list" where
  "example_read s =
     (if s = ''batch''
      then Inr [[''action'' \<mapsto> VStr ''pump_1'', ''value'' \<mapsto> VBool True],
                [''action'' \<mapsto> VStr ''bogus'', ''value'' \<mapsto> VInt 1]]
      else if s = ''pump''
      then Inr [[''action'' \<mapsto> VStr ''pump_1'', ''value'' \<mapsto> VBool True]]
      else Inl (InvalidMessageError ''Message is invalid JSON''))"

definition example_reader ::
  "(command_message \<Rightarrow> (command_message list, unit) action) list \<Rightarrow>
   command_message list mqtt_reader"
where
  "example_reader callbacks =
     \<lparr>decode = (\<lambda>b. if b = ''garbled'' then Inl (OtherException ''UnicodeDecodeError'')
                      else Inr b),
      read = example_read,
      validate = CommandMessage_validate example_configuration,
      transform = CommandMessage_transform,
      on_message_callbacks = callbacks\<rparr>"

text \<open>The command read from the payload \<open>pump\<close>, validated and transformed.\<close>

definition pump_command :: command_message where
  "pump_command =
     \<lparr>cm_action = VStr ''pump_1'', cm_value = VBool True,
      cm_target = Some (CoilTarget \<lparr>coil_name = ''pump_1'', coil_address = [10]\<rparr>),
      cm_typed = Some (VBool True)\<rparr>"

definition big_endian :: "word_order \<Rightarrow> memory_order" where
  "big_endian w = \<lparr>mo_bytes = BigEndian, mo_words = w\<rparr>"

section \<open>Properties of the Modbus client\<close>

lemmas action_defs = returnE_def raiseE_def bindE_def tryE_def publish_def call_def
  first_address_def

lemmas example_defs = example_configuration_def reliable_client_def refusing_client_def
  timing_out_client_def rejecting_client_def
  initial_state_def get_coil_def get_holding_register_def

text \<open>
  C5. When no coil is configured under the name, \<open>write_coil\<close> returns 0, raises nothing and
  makes no call on the TCP client. When a coil is configured under the name, has a base
  address, and the TCP client raises nothing, \<open>write_coil\<close> connects, issues exactly one
  single-coil write at the base address with the given boolean (and unit 1), closes, and
  returns 1; nothing is published.
\<close>

theorem write_coil_result:
  "(get_coil (configuration self) n = None \<longrightarrow>
      write_coil self n v st = (Inr 0, st)) \<and>
   (get_coil (configuration self) n = Some c \<and> coil_address c = a # rest \<and>
    (\<forall>h k. client self h k = Done) \<longrightarrow>
      write_coil self n v st =
        (Inr 1, st\<lparr>world := world st @ [Connect, WriteCoil a v 1, Close]\<rparr>))"
  by (simp add: write_coil_def action_defs)

theorem write_coil_result_witness:
  "write_coil reliable_client ''no_such_target'' True initial_state = (Inr 0, initial_state) \<and>
   write_coil reliable_client ''pump_1'' True initial_state =
     (Inr 1, \<lparr>published = [], world = [Connect, WriteCoil 10 True 1, Close]\<rparr>)"
proof -
  have absent: "get_coil (configuration reliable_client) ''no_such_target'' = None"
    by (simp add: example_defs)
  have present: "get_coil (configuration reliable_client) ''pump_1'' =
      Some \<lparr>coil_name = ''pump_1'', coil_address = [10]\<rparr>"
    by (simp add: example_defs)
  have ok: "\<forall>h k. client reliable_client h k = Done"
    by (simp add: reliable_client_def)
  from write_coil_result [where self = reliable_client and n = "''no_such_target''" and v = True
      and st = initial_state]
    write_coil_result [where self = reliable_client and n = "''pump_1''" and v = True
      and st = initial_state and a = 10 and rest = "[]"
      and c = "\<lparr>coil_name = ''pump_1'', coil_address = [10]\<rparr>"]
    absent present ok
  show ?thesis by (simp add: initial_state_def)
qed

text \<open>
  C6. When no register is configured under the name, \<open>write_register\<close> returns 0 and makes
  no call on the TCP client. When one is configured with a base address, the payload codec
  gives the word sequence \<open>ws\<close> for the value, and the TCP client raises nothing,
  \<open>write_register\<close> connects, issues exactly one multi-register write of exactly the
  words \<open>ws\<close> at the base address (unit 1), closes, and returns 1.
\<close>

theorem write_register_result:
  "(get_holding_register (configuration self) n = None \<longrightarrow>
      write_register self n v st = (Inr 0, st)) \<and>
   (get_holding_register (configuration self) n = Some r \<and> hr_address r = a # rest \<and>
    encode (hr_data_type r) (hr_memory_order r) v = Inr ws \<and>
    (\<forall>h k. client self h k = Done) \<longrightarrow>
      write_register self n v st =
        (Inr 1, st\<lparr>world := world st @ [Connect, WriteRegisters a ws 1, Close]\<rparr>))"
  by (simp add: write_register_def build_register_payload_def action_defs)

theorem write_register_result_witness:
  "write_register reliable_client ''no_such_target'' (VInt 5) initial_state =
     (Inr 0, initial_state) \<and>
   write_register reliable_client ''setpoint'' (VInt (- 1)) initial_state =
     (Inr 1, \<lparr>published = [], world = [Connect, WriteRegisters 100 [65535] 1, Close]\<rparr>)"
proof -
  have absent: "get_holding_register (configuration reliable_client) ''no_such_target'' = None"
    by (simp add: example_defs)
  have present: "get_holding_register (configuration reliable_client) ''setpoint'' =
      Some \<lparr>hr_name = ''setpoint'', hr_address = [100], hr_data_type = INT16,
          hr_memory_order = \<lparr>mo_bytes = BigEndian, mo_words = NaturalWords\<rparr>\<rparr>"
    by (simp add: example_defs)
  have words: "encode INT16 \<lparr>mo_bytes = BigEndian, mo_words = NaturalWords\<rparr> (VInt (- 1)) =
      Inr [65535]"
    by (simp add: encode_def numeral_2_eq_2)
  have ok: "\<forall>h k. client reliable_client h k = Done"
    by (simp add: reliable_client_def)
  from write_register_result [where self = reliable_client and n = "''no_such_target''"
      and v = "VInt 5" and st = initial_state]
    write_register_result [where self = reliable_client and n = "''setpoint''"
      and v = "VInt (- 1)" and st = initial_state and a = 100 and rest = "[]" and ws = "[65535]"
      and r = "\<lparr>hr_name = ''setpoint'', hr_address = [100], hr_data_type = INT16,
          hr_memory_order = \<lparr>mo_bytes = BigEndian, mo_words = NaturalWords\<rparr>\<rparr>"]
    absent present ok words
  show ?thesis by (simp add: initial_state_def)
qed

lemmas action_splits = option.splits sum.splits prod.splits tcp_result.splits list.splits
  if_splits

lemma write_coil_absent: "get_coil (configuration self) n = None \<Longrightarrow> write_coil self n v = returnE 0"
  by (simp add: write_coil_def)

lemma write_register_absent:
  "get_holding_register (configuration self) n = None \<Longrightarrow> write_register self n v = returnE 0"
  by (simp add: write_register_def)

lemma write_coil_present:
  "get_coil (configuration self) n = Some c \<Longrightarrow> write_coil self n v st = (r, st') \<Longrightarrow>
   r = Inr 1 \<or> (\<exists>s. r = Inl (ModbusClientError s) \<or> r = Inl (IndexError s) \<or> r = Inl (OtherException s))"
  by (auto simp: write_coil_def action_defs split: action_splits)

lemma encode_error: "encode t mo v = Inl e \<Longrightarrow> \<exists>s. e = EncodingError s"
  by (cases t; cases v) (auto simp: encode_def float_bytes_def split: sum.splits option.splits if_splits)

lemma write_register_present:
  "get_holding_register (configuration self) n = Some h \<Longrightarrow> write_register self n v st = (r, st') \<Longrightarrow>
   r = Inr 1 \<or> (\<exists>s. r = Inl (ModbusClientError s) \<or> r = Inl (IndexError s) \<or> r = Inl (OtherException s)
      \<or> r = Inl (InvalidMessageError s))"
  by (auto simp: write_register_def build_register_payload_def except_Exception_invalid_def
      action_defs split: action_splits dest: encode_error)

lemma bindE_returnE: "bindE (returnE x) f = f x"
  by (simp add: bindE_def returnE_def fun_eq_iff)

lemma bindE_returnE_right: "bindE m returnE = m"
  by (auto simp: bindE_def returnE_def fun_eq_iff split: prod.splits sum.splits)

lemma bindE_assoc: "bindE (bindE m f) g = bindE m (\<lambda>x. bindE (f x) g)"
  by (auto simp: bindE_def fun_eq_iff split: prod.splits sum.splits)

lemma write_command_sent_both:
  "write_command_sent self n v =
     bindE (write_coil self n (py_bool v)) (\<lambda>a.
     bindE (write_register self n v) (\<lambda>b. returnE (a + b)))"
  by (cases "get_coil (configuration self) n"; cases "get_holding_register (configuration self) n")
    (simp_all add: write_command_sent_def write_coil_absent write_register_absent
      bindE_returnE bindE_returnE_right bindE_assoc)

lemma write_command_sent_cases:
  "write_command_sent self n v st = (r, st') \<Longrightarrow>
   (get_coil (configuration self) n = None \<and> get_holding_register (configuration self) n = None
      \<and> r = Inr 0 \<and> st' = st) \<or>
   ((get_coil (configuration self) n \<noteq> None \<or> get_holding_register (configuration self) n \<noteq> None) \<and>
     (r = Inr 1 \<or> r = Inr 2 \<or> (\<exists>s. r = Inl (ModbusClientError s) \<or> r = Inl (IndexError s) \<or> r = Inl (OtherException s)
      \<or> r = Inl (InvalidMessageError s))))"
  apply (cases "get_coil (configuration self) n"; cases "get_holding_register (configuration self) n")
     apply (simp_all add: write_command_sent_def write_coil_absent write_register_absent
      bindE_returnE bindE_returnE_right bindE_assoc)
     apply (simp add: returnE_def)
    apply (auto dest: write_register_present)[1]
    apply (auto simp: bindE_def returnE_def split: prod.splits sum.splits dest!: write_register_present write_coil_present)
  done

lemma write_command_of_sent:
  "write_command_sent self n v st = (r, st') \<Longrightarrow>
   write_command self n v st =
     (case r of
        Inl e \<Rightarrow> (Inl e, st')
      | Inr sent \<Rightarrow>
          if sent = 0
          then (Inl (UnknownCommandError n),
                st'\<lparr>published := published st' @ [PublishedException (UnknownCommandError n)]\<rparr>)
          else (Inr None, st'))"
  by (simp add: write_command_def action_defs split: sum.splits)

lemma write_command_both:
  "write_command self n v =
     bindE (write_coil self n (py_bool v)) (\<lambda>a.
     bindE (write_register self n v) (\<lambda>b.
     if a + b = 0
     then bindE (publish (PublishedException (UnknownCommandError n)))
            (\<lambda>_. raiseE (UnknownCommandError n))
     else returnE None))"
  by (simp add: write_command_def write_command_sent_both bindE_assoc bindE_returnE)

text \<open>
  C1. \<open>write_command\<close> is the coil write, with the value coerced to a boolean, followed by
  the register write, followed by the test of the sum of the two counts: when the sum is 0
  it publishes an \<open>UnknownCommandError\<close> and raises it, otherwise it returns. Its guarded
  calls are the same as calling both, and \<open>sent\<close> is the sum of what they return. It
  raises \<open>UnknownCommandError\<close> if and only if that sum is 0, which is the case if and only
  if the name is neither a coil nor a register. In that case no call is made on the TCP
  client and the only effect before the raise is one publication, of the
  \<open>UnknownCommandError\<close>.
\<close>

theorem write_command_unknown:
  "write_command self n v =
     bindE (write_coil self n (py_bool v)) (\<lambda>a.
     bindE (write_register self n v) (\<lambda>b.
     if a + b = 0
     then bindE (publish (PublishedException (UnknownCommandError n)))
            (\<lambda>_. raiseE (UnknownCommandError n))
     else returnE None)) \<and>
   write_command_sent self n v =
     bindE (write_coil self n (py_bool v)) (\<lambda>a.
     bindE (write_register self n v) (\<lambda>b. returnE (a + b))) \<and>
   ((\<exists>s. fst (write_command self n v st) = Inl (UnknownCommandError s)) \<longleftrightarrow>
      fst (write_command_sent self n v st) = Inr 0) \<and>
   (fst (write_command_sent self n v st) = Inr 0 \<longleftrightarrow>
      get_coil (configuration self) n = None \<and>
      get_holding_register (configuration self) n = None) \<and>
   (fst (write_command_sent self n v st) = Inr 0 \<longrightarrow>
      write_command self n v st =
        (Inl (UnknownCommandError n),
         st\<lparr>published := published st @ [PublishedException (UnknownCommandError n)]\<rparr>))"
proof -
  obtain r st' where sent: "write_command_sent self n v st = (r, st')"
    by (cases "write_command_sent self n v st")
  note cases = write_command_sent_cases [OF sent]
  note cmd = write_command_of_sent [OF sent]
  have a: "(\<exists>s. fst (write_command self n v st) = Inl (UnknownCommandError s)) \<longleftrightarrow> r = Inr 0"
    using cases cmd by (auto split: sum.splits)
  have b: "r = Inr 0 \<longleftrightarrow>
      get_coil (configuration self) n = None \<and>
      get_holding_register (configuration self) n = None"
    using cases by auto
  have c: "r = Inr 0 \<longrightarrow>
      write_command self n v st =
        (Inl (UnknownCommandError n),
         st\<lparr>published := published st @ [PublishedException (UnknownCommandError n)]\<rparr>)"
    using cases cmd by auto
  have d: "fst (write_command_sent self n v st) = r"
    by (simp add: sent)
  from a b c show ?thesis
    unfolding d by (intro conjI write_command_sent_both write_command_both)
qed

theorem write_command_unknown_witness:
  "write_command reliable_client ''no_such_target'' (VInt 5) initial_state =
     (Inl (UnknownCommandError ''no_such_target''),
      \<lparr>published = [PublishedException (UnknownCommandError ''no_such_target'')], world = []\<rparr>) \<and>
   fst (write_command_sent reliable_client ''pump_1'' (VInt 5) initial_state) = Inr 1 \<and>
   fst (write_command reliable_client ''pump_1'' (VInt 5) initial_state) = Inr None"
proof -
  have absent: "get_coil (configuration reliable_client) ''no_such_target'' = None \<and>
      get_holding_register (configuration reliable_client) ''no_such_target'' = None"
    by (simp add: example_defs)
  have sent: "fst (write_command_sent reliable_client ''pump_1'' (VInt 5) initial_state) = Inr 1"
    by (simp add: write_command_sent_def write_coil_def action_defs example_defs)
  have returned: "fst (write_command reliable_client ''pump_1'' (VInt 5) initial_state) = Inr None"
    by (simp add: write_command_def write_command_sent_def write_coil_def action_defs example_defs)
  from write_command_unknown [where self = reliable_client and n = "''no_such_target''"
      and v = "VInt 5" and st = initial_state] absent
  have "write_command reliable_client ''no_such_target'' (VInt 5) initial_state =
     (Inl (UnknownCommandError ''no_such_target''),
      initial_state\<lparr>published := published initial_state @
        [PublishedException (UnknownCommandError ''no_such_target'')]\<rparr>)"
    by blast
  with sent returned show ?thesis
    by (simp add: initial_state_def)
qed




text \<open>
  C9. \<open>write_command\<close> never returns an integer: whenever the sum \<open>sent\<close> of the write
  counts is not 0, what it returns is \<^verbatim>\<open>None\<close>, and the sum is dropped.
\<close>

theorem write_command_returns_nothing:
  "fst (write_command self n v st) \<noteq> Inr (Some k) \<and>
   (write_command_sent self n v st = (Inr sent, st') \<and> sent \<noteq> 0 \<longrightarrow>
      write_command self n v st = (Inr None, st'))"
  by (auto simp: write_command_def action_defs split: sum.splits prod.splits)

theorem write_command_returns_nothing_witness:
  "write_command_sent reliable_client ''pump_1'' (VBool True) initial_state =
     (Inr 1, \<lparr>published = [], world = [Connect, WriteCoil 10 True 1, Close]\<rparr>) \<and>
   write_command reliable_client ''pump_1'' (VBool True) initial_state =
     (Inr None, \<lparr>published = [], world = [Connect, WriteCoil 10 True 1, Close]\<rparr>)"
proof -
  have sent: "write_command_sent reliable_client ''pump_1'' (VBool True) initial_state =
     (Inr 1, \<lparr>published = [], world = [Connect, WriteCoil 10 True 1, Close]\<rparr>)"
    by (simp add: write_command_sent_def write_coil_def action_defs example_defs)
  from write_command_returns_nothing [where self = reliable_client and n = "''pump_1''"
      and v = "VBool True" and st = initial_state and sent = 1
      and st' = "\<lparr>published = [], world = [Connect, WriteCoil 10 True 1, Close]\<rparr>"] sent
  show ?thesis by simp
qed

text \<open>
  C10. For a name configured as a coil (with a base address, and a TCP client that raises
  nothing), \<open>write_coils\<close> with the empty list still issues a multi-coil write of zero
  coils and returns 0, the value it also returns, without any call, for a name \<open>m\<close> that
  is not configured as a coil.
\<close>

theorem write_coils_empty:
  "get_coil (configuration self) n = Some c \<and> coil_address c = a # rest \<and>
   (\<forall>h k. client self h k = Done) \<longrightarrow>
     write_coils self n [] st =
       (Inr 0, st\<lparr>world := world st @ [Connect, WriteCoils a [], Close]\<rparr>) \<and>
     (get_coil (configuration self) m = None \<longrightarrow>
        write_coils self m [] st = (Inr 0, st) \<and>
        fst (write_coils self m [] st) = fst (write_coils self n [] st))"
  by (simp add: write_coils_def action_defs)

theorem write_coils_empty_witness:
  "write_coils reliable_client ''pump_1'' [] initial_state =
     (Inr 0, \<lparr>published = [], world = [Connect, WriteCoils 10 [], Close]\<rparr>) \<and>
   write_coils reliable_client ''no_such_target'' [] initial_state = (Inr 0, initial_state)"
proof -
  have present: "get_coil (configuration reliable_client) ''pump_1'' =
      Some \<lparr>coil_name = ''pump_1'', coil_address = [10]\<rparr>"
    by (simp add: example_defs)
  have absent: "get_coil (configuration reliable_client) ''no_such_target'' = None"
    by (simp add: example_defs)
  have ok: "\<forall>h k. client reliable_client h k = Done"
    by (simp add: reliable_client_def)
  from write_coils_empty [where self = reliable_client and n = "''pump_1''"
      and m = "''no_such_target''" and st = initial_state and a = 10 and rest = "[]"
      and c = "\<lparr>coil_name = ''pump_1'', coil_address = [10]\<rparr>"]
    present absent ok
  show ?thesis by (simp add: initial_state_def)
qed

text \<open>
  An error response that the TCP client returns is not looked at: the write counts as done
  and nothing is published.
\<close>

lemma write_coil_error_returned:
  "write_coil rejecting_client ''pump_1'' True initial_state =
     (Inr 1, \<lparr>published = [], world = [Connect, WriteCoil 10 True 1, Close]\<rparr>)"
  by (simp add: write_coil_def action_defs example_defs)

text \<open>
  C7, as stated, fails: the write operations catch \<open>ModbusException\<close> only. When the TCP
  client raises another exception at the write, that exception leaves \<open>write_coil\<close> as it
  is, and nothing is published.
\<close>

theorem transport_failure_not_modbus:
  "write_coil timing_out_client ''pump_1'' True initial_state =
     (Inl (OtherException ''timed out''),
      \<lparr>published = [], world = [Connect, WriteCoil 10 True 1]\<rparr>)"
  by (simp add: write_coil_def action_defs example_defs)

text \<open>
  C7, amended. Let \<open>operation\<close> be \<open>write_coil\<close>, \<open>write_coils\<close> or \<open>write_register\<close> on a
  configured target with a base address (and, for a register, a value that encodes), and
  \<open>w\<close> the write it issues. If the TCP client raises a \<open>ModbusException\<close> when connecting
  (connection refusal) or, once connected, at the write \<open>w\<close>, the operation publishes that
  exception and raises \<open>ModbusClientError\<close> with its text. If the TCP client raises any
  other exception there, the operation raises that exception unchanged and publishes
  nothing. In both cases the calls made are the connection attempt and at most the one
  write: the write is not repeated.
\<close>

theorem transport_failure_reported:
  assumes target:
    "(get_coil (configuration self) n = Some c \<and> coil_address c = a # rest \<and>
        (operation = write_coil self n b \<and> w = WriteCoil a b 1 \<or>
         operation = write_coils self n bs \<and> w = WriteCoils a bs)) \<or>
     (get_holding_register (configuration self) n = Some r \<and> hr_address r = a # rest \<and>
        encode (hr_data_type r) (hr_memory_order r) v = Inr ws \<and>
        operation = write_register self n v \<and> w = WriteRegisters a ws 1)"
  shows
    "((client self (world st) Connect = ModbusFailure s \<and> made = [Connect]) \<or>
      (client self (world st) Connect = Done \<and>
         client self (world st @ [Connect]) w = ModbusFailure s \<and> made = [Connect, w]) \<longrightarrow>
        operation st =
          (Inl (ModbusClientError s),
           st\<lparr>published := published st @ [PublishedException (ModbusException s)],
              world := world st @ made\<rparr>)) \<and>
     ((client self (world st) Connect = OtherFailure s \<and> made = [Connect]) \<or>
      (client self (world st) Connect = Done \<and>
         client self (world st @ [Connect]) w = OtherFailure s \<and> made = [Connect, w]) \<longrightarrow>
        operation st = (Inl (OtherException s), st\<lparr>world := world st @ made\<rparr>))"
  using target
  by (elim disjE conjE)
    (auto simp: write_coil_def write_coils_def write_register_def
      build_register_payload_def action_defs)

theorem transport_failure_reported_witness:
  "write_coil refusing_client ''pump_1'' True initial_state =
     (Inl (ModbusClientError ''refused''),
      \<lparr>published = [PublishedException (ModbusException ''refused'')],
         world = [Connect, WriteCoil 10 True 1]\<rparr>) \<and>
   write_coils refusing_client ''pump_1'' [True, False] initial_state =
     (Inl (ModbusClientError ''refused''),
      \<lparr>published = [PublishedException (ModbusException ''refused'')],
         world = [Connect, WriteCoils 10 [True, False]]\<rparr>) \<and>
   write_register refusing_client ''setpoint'' (VInt (- 1)) initial_state =
     (Inl (ModbusClientError ''refused''),
      \<lparr>published = [PublishedException (ModbusException ''refused'')],
         world = [Connect, WriteRegisters 100 [65535] 1]\<rparr>) \<and>
   write_register timing_out_client ''setpoint'' (VInt (- 1)) initial_state =
     (Inl (OtherException ''timed out''),
      \<lparr>published = [], world = [Connect, WriteRegisters 100 [65535] 1]\<rparr>)"
proof -
  have coil: "get_coil (configuration refusing_client) ''pump_1'' =
      Some \<lparr>coil_name = ''pump_1'', coil_address = [10]\<rparr>"
    by (simp add: example_defs)
  have reg: "get_holding_register (configuration refusing_client) ''setpoint'' =
      Some \<lparr>hr_name = ''setpoint'', hr_address = [100], hr_data_type = INT16,
          hr_memory_order = \<lparr>mo_bytes = BigEndian, mo_words = NaturalWords\<rparr>\<rparr>"
    by (simp add: example_defs)
  have words: "encode INT16 \<lparr>mo_bytes = BigEndian, mo_words = NaturalWords\<rparr> (VInt (- 1)) =
      Inr [65535]"
    by (simp add: encode_def numeral_2_eq_2)
  have refuses: "client refusing_client (world initial_state) Connect = Done"
    "\<And>k. k \<noteq> Connect \<Longrightarrow> k \<noteq> Close \<Longrightarrow>
       client refusing_client (world initial_state @ [Connect]) k = ModbusFailure ''refused''"
    by (simp_all add: refusing_client_def)
  have one: "write_coil refusing_client ''pump_1'' True initial_state =
     (Inl (ModbusClientError ''refused''),
      initial_state\<lparr>published := published initial_state @
          [PublishedException (ModbusException ''refused'')],
        world := world initial_state @ [Connect, WriteCoil 10 True 1]\<rparr>)"
    using transport_failure_reported [where self = refusing_client and st = initial_state
        and operation = "write_coil refusing_client ''pump_1'' True"
        and w = "WriteCoil 10 True 1" and made = "[Connect, WriteCoil 10 True 1]"
        and s = "''refused''" and n = "''pump_1''" and a = 10 and rest = "[]" and b = True
        and c = "\<lparr>coil_name = ''pump_1'', coil_address = [10]\<rparr>"]
      coil refuses
    by simp
  have many: "write_coils refusing_client ''pump_1'' [True, False] initial_state =
     (Inl (ModbusClientError ''refused''),
      initial_state\<lparr>published := published initial_state @
          [PublishedException (ModbusException ''refused'')],
        world := world initial_state @ [Connect, WriteCoils 10 [True, False]]\<rparr>)"
    using transport_failure_reported [where self = refusing_client and st = initial_state
        and operation = "write_coils refusing_client ''pump_1'' [True, False]"
        and w = "WriteCoils 10 [True, False]" and made = "[Connect, WriteCoils 10 [True, False]]"
        and s = "''refused''" and n = "''pump_1''" and a = 10 and rest = "[]"
        and bs = "[True, False]"
        and c = "\<lparr>coil_name = ''pump_1'', coil_address = [10]\<rparr>"]
      coil refuses
    by simp
  have register: "write_register refusing_client ''setpoint'' (VInt (- 1)) initial_state =
     (Inl (ModbusClientError ''refused''),
      initial_state\<lparr>published := published initial_state @
          [PublishedException (ModbusException ''refused'')],
        world := world initial_state @ [Connect, WriteRegisters 100 [65535] 1]\<rparr>)"
    using transport_failure_reported [where self = refusing_client and st = initial_state
        and operation = "write_register refusing_client ''setpoint'' (VInt (- 1))"
        and w = "WriteRegisters 100 [65535] 1"
        and made = "[Connect, WriteRegisters 100 [65535] 1]"
        and s = "''refused''" and n = "''setpoint''" and a = 100 and rest = "[]"
        and v = "VInt (- 1)" and ws = "[65535]"
        and r = "\<lparr>hr_name = ''setpoint'', hr_address = [100], hr_data_type = INT16,
          hr_memory_order = \<lparr>mo_bytes = BigEndian, mo_words = NaturalWords\<rparr>\<rparr>"]
      reg refuses words
    by simp
  have reg': "get_holding_register (configuration timing_out_client) ''setpoint'' =
      Some \<lparr>hr_name = ''setpoint'', hr_address = [100], hr_data_type = INT16,
          hr_memory_order = \<lparr>mo_bytes = BigEndian, mo_words = NaturalWords\<rparr>\<rparr>"
    by (simp add: example_defs)
  have times_out: "client timing_out_client (world initial_state) Connect = Done"
    "\<And>k. k \<noteq> Connect \<Longrightarrow> k \<noteq> Close \<Longrightarrow>
       client timing_out_client (world initial_state @ [Connect]) k = OtherFailure ''timed out''"
    by (simp_all add: timing_out_client_def)
  have other: "write_register timing_out_client ''setpoint'' (VInt (- 1)) initial_state =
     (Inl (OtherException ''timed out''),
      initial_state\<lparr>world := world initial_state @ [Connect, WriteRegisters 100 [65535] 1]\<rparr>)"
    using transport_failure_reported [where self = timing_out_client and st = initial_state
        and operation = "write_register timing_out_client ''setpoint'' (VInt (- 1))"
        and w = "WriteRegisters 100 [65535] 1"
        and made = "[Connect, WriteRegisters 100 [65535] 1]"
        and s = "''timed out''" and n = "''setpoint''" and a = 100 and rest = "[]"
        and v = "VInt (- 1)" and ws = "[65535]"
        and r = "\<lparr>hr_name = ''setpoint'', hr_address = [100], hr_data_type = INT16,
          hr_memory_order = \<lparr>mo_bytes = BigEndian, mo_words = NaturalWords\<rparr>\<rparr>"]
      reg' times_out words
    by simp
  from one many register other show ?thesis
    by (simp add: initial_state_def)
qed

section \<open>Properties of the payload codec\<close>

text \<open>
  C4. The codec that follows the steps of the spec's section 4.3 gives the single word
  \<open>0xFFFF\<close> for the 16-bit integer -1, and for the 32-bit float 1.0 (bit pattern
  \<open>0x3F800000\<close>) the words \<open>0x3F80, 0x0000\<close>, or the same words in reverse order when the
  word order is swapped; the byte order is big-endian throughout.
\<close>

theorem encode_worked_examples:
  "encode INT16 (big_endian NaturalWords) (VInt (- 1)) = Inr [0xFFFF] \<and>
   encode FLOAT32 (big_endian NaturalWords) (VFloat 1) = Inr [0x3F80, 0x0000] \<and>
   encode FLOAT32 (big_endian SwappedWords) (VFloat 1) = Inr [0x0000, 0x3F80]"
  by code_simp

section \<open>Properties of the MQTT reader\<close>

text \<open>The loop over the batch ends at the first item that raises.\<close>

lemma read_items_abort:
  "\<forall>d \<in> set pre. \<exists>m. read_item self d = Inr m \<Longrightarrow> read_item self bad = Inl e \<Longrightarrow>
   read_items self (pre @ bad # post) acc = Inl e"
  by (induction pre arbitrary: acc) auto

text \<open>
  When the topic cannot be read, the \<^verbatim>\<open>except\<close> clause of the handler fails on its log line:
  an \<^verbatim>\<open>UnboundLocalError\<close> leaves the handler, nothing is published, and no callback is run.
\<close>

lemma on_message_unreadable_topic:
  "decode self (topic message) = Inl e \<Longrightarrow>
   on_message self message st =
     (if is_Exception e then (Inl (UnboundLocalError ''msg_topic''), st) else (Inl e, st))"
  by (simp add: on_message_def except_Exception_unhandled_def raiseE_def)

lemma on_message_read_failure:
  "decode self (topic message) = Inr tp \<Longrightarrow> read_messages self message = Inl e \<Longrightarrow>
   on_message self message st =
     (case e of
        InvalidMessageError t \<Rightarrow>
          (Inr (), st\<lparr>published := published st @ [PublishedCategory INVALID_MESSAGE t]\<rparr>)
      | UnknownCommandError t \<Rightarrow>
          (Inr (), st\<lparr>published := published st @ [PublishedCategory UNKNOWN_COMMAND t]\<rparr>)
      | _ \<Rightarrow>
          if is_Exception e
          then (Inr (), st\<lparr>published := published st @ [PublishedCategory UNHANDLED (str e)]\<rparr>)
          else (Inl e, st))"
  by (cases e)
    (simp_all add: on_message_def liftE_def except_Exception_unhandled_def action_defs)

lemma on_message_dispatch:
  "decode self (topic message) = Inr tp \<Longrightarrow> read_messages self message = Inr msgs \<Longrightarrow>
   on_message self message st =
     tryE (dispatch (on_message_callbacks self) msgs) (except_Exception_unhandled (Some tp)) st"
  by (simp add: on_message_def liftE_def action_defs split: prod.splits sum.splits)

text \<open>
  C2. Let the payload decode and read as a batch in which the item \<open>bad\<close> is the first that
  fails (the items \<open>pre\<close> before it are constructed, validated and transformed without an
  exception, the items \<open>post\<close> follow it). Then no callback is run, whatever the callbacks
  are: the world they act upon is unchanged. The handler behaves as on the batch that ends
  with \<open>bad\<close> with no callback registered, so the items after \<open>bad\<close> play no part. When the
  topic of the message can be read, an \<open>UnknownCommandError\<close> or \<open>InvalidMessageError\<close> of the
  item is published once, under its category, and the handler returns.
\<close>

theorem batch_aborted:
  assumes decoded: "decode self (payload message) = Inr msg_str"
    and batch: "read self msg_str = Inr (pre @ bad # post)"
    and valid: "\<forall>d \<in> set pre. \<exists>m. read_item self d = Inr m"
    and fails: "read_item self bad = Inl e"
  shows "world (snd (on_message self message st)) = world st \<and>
    on_message self message st =
      on_message (self\<lparr>read := \<lambda>s. Inr (pre @ [bad]), on_message_callbacks := []\<rparr>) message st \<and>
    (decode self (topic message) = Inr tp \<and> e = UnknownCommandError t \<longrightarrow>
       on_message self message st =
         (Inr (), st\<lparr>published := published st @ [PublishedCategory UNKNOWN_COMMAND t]\<rparr>)) \<and>
    (decode self (topic message) = Inr tp \<and> e = InvalidMessageError t \<longrightarrow>
       on_message self message st =
         (Inr (), st\<lparr>published := published st @ [PublishedCategory INVALID_MESSAGE t]\<rparr>))"
proof -
  let ?cut = "self\<lparr>read := \<lambda>s. Inr (pre @ [bad]), on_message_callbacks := []\<rparr>"
  from valid fails have "read_items self (pre @ bad # post) [] = Inl e"
    by (rule read_items_abort)
  with decoded batch have failed: "read_messages self message = Inl e"
    by (simp add: read_messages_def)
  have same: "read_item ?cut = read_item self"
    by (simp add: read_item_def fun_eq_iff split: sum.splits)
  with valid fails have "read_items ?cut (pre @ bad # []) [] = Inl e"
    by (intro read_items_abort) simp_all
  with decoded have cut: "read_messages ?cut message = Inl e"
    by (simp add: read_messages_def)
  have topic_cut: "decode ?cut (topic message) = decode self (topic message)"
    by simp
  show ?thesis
  proof (cases "decode self (topic message)")
    case (Inl x)
    from Inl topic_cut have unreadable_cut: "decode ?cut (topic message) = Inl x"
      by simp
    note unreadable = on_message_unreadable_topic [OF Inl, of st]
      on_message_unreadable_topic [OF unreadable_cut, of st]
    show ?thesis
      unfolding unreadable using Inl by simp
  next
    case (Inr x)
    from Inr topic_cut have readable_cut: "decode ?cut (topic message) = Inr x"
      by simp
    note result = on_message_read_failure [OF Inr failed, of st]
    note result_cut = on_message_read_failure [OF readable_cut cut, of st]
    have "world (snd (on_message self message st)) = world st"
      unfolding result by (cases e) simp_all
    moreover have "on_message self message st = on_message ?cut message st"
      unfolding result result_cut ..
    moreover have "e = UnknownCommandError t \<longrightarrow>
         on_message self message st =
           (Inr (), st\<lparr>published := published st @ [PublishedCategory UNKNOWN_COMMAND t]\<rparr>)"
      unfolding result by simp
    moreover have "e = InvalidMessageError t \<longrightarrow>
         on_message self message st =
           (Inr (), st\<lparr>published := published st @ [PublishedCategory INVALID_MESSAGE t]\<rparr>)"
      unfolding result by simp
    ultimately show ?thesis by blast
  qed
qed

theorem batch_aborted_witness:
  "on_message (example_reader [recording_callback])
     \<lparr>topic = ''commands'', payload = ''batch''\<rparr> nothing_dispatched =
   (Inr (), \<lparr>published = [PublishedCategory UNKNOWN_COMMAND ''bogus''], world = []\<rparr>)"
proof -
  let ?reader = "example_reader [recording_callback]"
  let ?message = "\<lparr>topic = ''commands'', payload = ''batch''\<rparr>"
  let ?valid = "[''action'' \<mapsto> VStr ''pump_1'', ''value'' \<mapsto> VBool True]"
  let ?bogus = "[''action'' \<mapsto> VStr ''bogus'', ''value'' \<mapsto> VInt 1]"
  have readable: "decode ?reader (topic ?message) = Inr ''commands''"
    by (simp add: example_reader_def)
  have decoded: "decode ?reader (payload ?message) = Inr ''batch''"
    by (simp add: example_reader_def)
  have batch: "read ?reader ''batch'' = Inr ([?valid] @ ?bogus # [])"
    by (simp add: example_reader_def example_read_def)
  have valid: "\<forall>d \<in> set [?valid]. \<exists>m. read_item ?reader d = Inr m"
    by (simp add: read_item_def getitem_def example_reader_def CommandMessage_def example_defs)
  have fails: "read_item ?reader ?bogus = Inl (UnknownCommandError ''bogus'')"
    by (simp add: read_item_def getitem_def example_reader_def CommandMessage_def example_defs)
  from batch_aborted [OF decoded batch valid fails, where st = nothing_dispatched
      and t = "''bogus''" and tp = "''commands''"] readable
  have "on_message ?reader ?message nothing_dispatched =
      (Inr (), nothing_dispatched\<lparr>published := published nothing_dispatched @
         [PublishedCategory UNKNOWN_COMMAND ''bogus'']\<rparr>)"
    by blast
  then show ?thesis
    by (simp add: nothing_dispatched_def)
qed

text \<open>
  C8, as stated, fails: \<^verbatim>\<open>except Exception\<close> does not catch an exception that derives from
  \<^verbatim>\<open>BaseException\<close> only. A callback that raises \<^verbatim>\<open>SystemExit\<close> makes the handler raise
  it, although nothing the error handler does raises.
\<close>

theorem on_message_propagates_system_exit:
  "on_message (example_reader [exiting_callback])
     \<lparr>topic = ''commands'', payload = ''pump''\<rparr> nothing_dispatched =
   (Inl (BaseExceptionOnly ''SystemExit''), nothing_dispatched)"
  by (simp add: on_message_def read_messages_def read_item_def getitem_def liftE_def
      example_reader_def example_read_def CommandMessage_def exiting_callback_def
      except_Exception_unhandled_def action_defs example_defs)

text \<open>
  C8, amended. The error handler's \<open>publish\<close> never raises. For a message whose topic can
  be read: an exception that leaves the handler is not an \<^verbatim>\<open>Exception\<close>; every
  \<^verbatim>\<open>Exception\<close> other than \<open>InvalidMessageError\<close> and \<open>UnknownCommandError\<close> that is raised
  while the batch is decoded, read, validated and transformed, and every \<^verbatim>\<open>Exception\<close>
  that a callback raises, is published as \<open>UNHANDLED\<close> with its text, and the handler
  returns normally.
\<close>

theorem on_message_catches_exceptions:
  "decode self (topic message) = Inr tp \<longrightarrow>
   (fst (on_message self message st) = Inl e \<longrightarrow> \<not> is_Exception e) \<and>
   (read_messages self message = Inl e \<and> is_Exception e \<and>
    (\<forall>t. e \<noteq> InvalidMessageError t \<and> e \<noteq> UnknownCommandError t) \<longrightarrow>
      on_message self message st =
        (Inr (), st\<lparr>published := published st @ [PublishedCategory UNHANDLED (str e)]\<rparr>)) \<and>
   (read_messages self message = Inr msgs \<and>
    dispatch (on_message_callbacks self) msgs st = (Inl e, st') \<and> is_Exception e \<longrightarrow>
      on_message self message st =
        (Inr (), st'\<lparr>published := published st' @ [PublishedCategory UNHANDLED (str e)]\<rparr>))"
proof (intro conjI impI; (elim conjE)?)
  assume readable: "decode self (topic message) = Inr tp"
    and out: "fst (on_message self message st) = Inl e"
  show "\<not> is_Exception e"
  proof (cases "read_messages self message")
    case (Inl x)
    from out show ?thesis
      unfolding on_message_read_failure [OF readable Inl]
      by (cases x) (auto split: if_splits)
  next
    case (Inr msgs)
    from out show ?thesis
      unfolding on_message_dispatch [OF readable Inr]
      by (auto simp: tryE_def except_Exception_unhandled_def publish_def raiseE_def
          split: prod.splits sum.splits if_splits)
  qed
next
  assume "decode self (topic message) = Inr tp"
    "read_messages self message = Inl e" "is_Exception e"
    "\<forall>t. e \<noteq> InvalidMessageError t \<and> e \<noteq> UnknownCommandError t"
  then show "on_message self message st =
        (Inr (), st\<lparr>published := published st @ [PublishedCategory UNHANDLED (str e)]\<rparr>)"
    by (cases e) (simp_all add: on_message_read_failure)
next
  assume "decode self (topic message) = Inr tp"
    "read_messages self message = Inr msgs"
    "dispatch (on_message_callbacks self) msgs st = (Inl e, st')" "is_Exception e"
  then show "on_message self message st =
        (Inr (), st'\<lparr>published := published st' @ [PublishedCategory UNHANDLED (str e)]\<rparr>)"
    by (simp add: on_message_dispatch tryE_def except_Exception_unhandled_def publish_def)
qed

theorem on_message_catches_exceptions_witness:
  "on_message (example_reader [recording_callback])
     \<lparr>topic = ''commands'', payload = ''garbled''\<rparr> nothing_dispatched =
   (Inr (), \<lparr>published = [PublishedCategory UNHANDLED ''UnicodeDecodeError''], world = []\<rparr>) \<and>
   on_message (example_reader [recording_callback, failing_callback])
     \<lparr>topic = ''commands'', payload = ''pump''\<rparr> nothing_dispatched =
   (Inr (), \<lparr>published = [PublishedCategory UNHANDLED ''callback failed''],
             world = [pump_command]\<rparr>) \<and>
   fst (on_message (example_reader [exiting_callback])
     \<lparr>topic = ''commands'', payload = ''pump''\<rparr> nothing_dispatched) =
     Inl (BaseExceptionOnly ''SystemExit'') \<and>
   \<not> is_Exception (BaseExceptionOnly ''SystemExit'')"
proof -
  have readable: "\<And>cbs p. decode (example_reader cbs)
      (topic \<lparr>topic = ''commands'', payload = p\<rparr>) = Inr ''commands''"
    by (simp add: example_reader_def)
  have garbled: "read_messages (example_reader [recording_callback])
      \<lparr>topic = ''commands'', payload = ''garbled''\<rparr> = Inl (OtherException ''UnicodeDecodeError'')"
    by (simp add: read_messages_def example_reader_def)
  have pump: "\<And>cbs. read_messages (example_reader cbs)
      \<lparr>topic = ''commands'', payload = ''pump''\<rparr> = Inr [pump_command]"
    by (simp add: read_messages_def read_item_def getitem_def example_reader_def
        example_read_def CommandMessage_def pump_command_def example_defs)
  have failed: "dispatch (on_message_callbacks (example_reader [recording_callback, failing_callback]))
      [pump_command] nothing_dispatched =
      (Inl (OtherException ''callback failed''),
       \<lparr>published = [], world = [pump_command]\<rparr>)"
    by (simp add: example_reader_def recording_callback_def failing_callback_def
        nothing_dispatched_def action_defs)
  have exits: "fst (on_message (example_reader [exiting_callback])
     \<lparr>topic = ''commands'', payload = ''pump''\<rparr> nothing_dispatched) =
     Inl (BaseExceptionOnly ''SystemExit'')"
    by (simp add: on_message_def read_messages_def read_item_def getitem_def liftE_def
        example_reader_def example_read_def CommandMessage_def exiting_callback_def
        except_Exception_unhandled_def action_defs example_defs)
  from on_message_catches_exceptions [where self = "example_reader [recording_callback]"
      and message = "\<lparr>topic = ''commands'', payload = ''garbled''\<rparr>"
      and tp = "''commands''"
      and st = nothing_dispatched and e = "OtherException ''UnicodeDecodeError''"]
    readable garbled
  have first: "on_message (example_reader [recording_callback])
     \<lparr>topic = ''commands'', payload = ''garbled''\<rparr> nothing_dispatched =
   (Inr (), \<lparr>published = [PublishedCategory UNHANDLED ''UnicodeDecodeError''], world = []\<rparr>)"
    by (simp add: nothing_dispatched_def)
  from on_message_catches_exceptions
      [where self = "example_reader [recording_callback, failing_callback]"
      and message = "\<lparr>topic = ''commands'', payload = ''pump''\<rparr>"
      and tp = "''commands''"
      and st = nothing_dispatched and e = "OtherException ''callback failed''"
      and msgs = "[pump_command]"
      and st' = "\<lparr>published = [], world = [pump_command]\<rparr>"]
    readable pump failed
  have second: "on_message (example_reader [recording_callback, failing_callback])
     \<lparr>topic = ''commands'', payload = ''pump''\<rparr> nothing_dispatched =
   (Inr (), \<lparr>published = [PublishedCategory UNHANDLED ''callback failed''],
             world = [pump_command]\<rparr>)"
    by simp
  from on_message_catches_exceptions [where self = "example_reader [exiting_callback]"
      and message = "\<lparr>topic = ''commands'', payload = ''pump''\<rparr>"
      and tp = "''commands''"
      and st = nothing_dispatched and e = "BaseExceptionOnly ''SystemExit''"]
    readable exits
  have third: "\<not> is_Exception (BaseExceptionOnly ''SystemExit'')"
    by blast
  from first second third exits show ?thesis by blast
qed

end
